theory Spec2Isabelle
  imports Main "HOL-Library.Word"
begin

section \<open>The C types of LibC.h\<close>

text \<open>
  \<open>Library/Val/LibC.h\<close> is compiled for Windows only (\<open>#ifdef _WIN32\<close>), where
  \<open>size_t\<close> and every pointer have the same width: 32 bits, or 64 bits under
  \<open>_WIN64\<close>. The width is the type parameter \<open>'a\<close>. A \<open>void*\<close> and a \<open>FILE*\<close>
  are the address they hold, the null pointer being address 0. \<open>int\<close> has 32 bits.
  The \<open>const char*\<close> argument of \<open>fdopen\<close> is the string it points to: the file
  hands it on and never reads it.
\<close>

type_synonym 'a size_t = "'a word"
type_synonym 'a ptr = "'a word"
type_synonym c_int = "32 word"

abbreviation (input) NULL :: "'a::len ptr" where
  "NULL \<equiv> 0"

section \<open>The runtime the file forwards to\<close>

text \<open>
  The three functions of the file call \<open>_aligned_malloc\<close>, \<open>_aligned_free\<close> and
  \<open>_fdopen\<close>, which \<open>malloc.h\<close> and \<open>stdio.h\<close> declare and the C runtime of the
  platform implements. Their code is no part of the file, so the runtime is a parameter:
  a record of functions over a state \<open>'h\<close> of the runtime's own (its heap, its table of
  descriptors and of streams). A call either returns a value and the next state, or
  does not return at all (\<open>None\<close>: the runtime ended the process).
\<close>

type_synonym ('r, 'h) call = "'h \<Rightarrow> ('r \<times> 'h) option"

text \<open>
  \<open>host_free\<close> is the runtime's own generic deallocator, the function the name
  \<open>free\<close> stands for where this file is not compiled in. The file never calls it; it
  is in the record so that this can be said.
\<close>

record (overloaded) ('a, 'h) host =
  host_aligned_malloc :: "'a size_t \<Rightarrow> 'a size_t \<Rightarrow> ('a ptr, 'h) call"
  host_aligned_free :: "'a ptr \<Rightarrow> (unit, 'h) call"
  host_fdopen :: "c_int \<Rightarrow> string \<Rightarrow> ('a ptr, 'h) call"
  host_free :: "'a ptr \<Rightarrow> (unit, 'h) call"

text \<open>
  The two statement forms the file uses. \<open>call_then m k\<close> runs the call \<open>m\<close> and hands
  its value to \<open>k\<close>; where \<open>m\<close> does not return, nothing after it runs.
  \<open>return_value r\<close> is \<open>return r;\<close> (for a \<open>void\<close> function, falling off the end of the
  body, with \<open>r = ()\<close>).
\<close>

definition call_then :: "('r, 'h) call \<Rightarrow> ('r \<Rightarrow> ('q, 'h) call) \<Rightarrow> ('q, 'h) call" where
  "call_then m k s = (case m s of None \<Rightarrow> None | Some (r, s') \<Rightarrow> k r s')"

definition return_value :: "'r \<Rightarrow> ('r, 'h) call" where
  "return_value r s = Some (r, s)"

section \<open>The three functions\<close>

text \<open>
  \<^verbatim>\<open>void* aligned_alloc(size_t alignment, size_t size) {
    return _aligned_malloc(size, alignment);
}\<close>
\<close>

definition aligned_alloc :: "('a::len, 'h) host \<Rightarrow> 'a size_t \<Rightarrow> 'a size_t \<Rightarrow> ('a ptr, 'h) call" where
  "aligned_alloc H alignment sz =
     call_then (host_aligned_malloc H sz alignment) (\<lambda>r. return_value r)"

text \<open>
  \<^verbatim>\<open>void free(void* memblock) {
    _aligned_free(memblock);
}\<close>
\<close>

definition free :: "('a::len, 'h) host \<Rightarrow> 'a ptr \<Rightarrow> (unit, 'h) call" where
  "free H memblock =
     call_then (host_aligned_free H memblock) (\<lambda>_. return_value ())"

text \<open>
  \<^verbatim>\<open>FILE* fdopen(int fd, const char* mode) {
    return _fdopen(fd, mode);
}\<close>
\<close>

definition fdopen :: "('a::len, 'h) host \<Rightarrow> c_int \<Rightarrow> string \<Rightarrow> ('a ptr, 'h) call" where
  "fdopen H fd mode =
     call_then (host_fdopen H fd mode) (\<lambda>r. return_value r)"

section \<open>The translation unit\<close>

text \<open>
  After its two \<open>#include\<close> lines, which bring in the declarations of the platform's
  \<open>stdio.h\<close> and \<open>malloc.h\<close> and define nothing of the file's own, the file is one
  conditional group:
  \<^verbatim>\<open>#ifdef _WIN32
  ... the three function definitions ...
#else

#endif\<close>
  What it contributes to a program is the list of its external definitions, by name, as
  a function of whether \<open>_WIN32\<close> is defined. An external definition of C is the
  definition of a function or of an object (a variable with static storage). A function
  is given with its meaning, by the shape of its prototype; an object with its address.
\<close>

datatype ('z, 'p, 'h) external_definition =
    Fn_size_size_to_ptr "'z \<Rightarrow> 'z \<Rightarrow> ('p, 'h) call"
  | Fn_ptr_to_void "'p \<Rightarrow> (unit, 'h) call"
  | Fn_int_str_to_ptr "c_int \<Rightarrow> string \<Rightarrow> ('p, 'h) call"
  | Object 'p

type_synonym ('a, 'h) definitions = "(string \<times> ('a size_t, 'a ptr, 'h) external_definition) list"

definition LibC_h :: "bool \<Rightarrow> ('a::len, 'h) host \<Rightarrow> ('a, 'h) definitions" where
  "LibC_h WIN32_defined H =
     (if WIN32_defined then
        [(''aligned_alloc'', Fn_size_size_to_ptr (aligned_alloc H)),
         (''free'', Fn_ptr_to_void (free H)),
         (''fdopen'', Fn_int_str_to_ptr (fdopen H))]
      else [])"

fun is_object :: "('z, 'p, 'h) external_definition \<Rightarrow> bool" where
  "is_object (Object _) = True"
| "is_object _ = False"

definition objects_of :: "(string \<times> ('z, 'p, 'h) external_definition) list \<Rightarrow> string list" where
  "objects_of tu = map fst (filter (\<lambda>d. is_object (snd d)) tu)"

section \<open>Observing the calls made to the runtime\<close>

text \<open>
  To say which functions of the runtime a call of the file reaches, and how often, a
  runtime is wrapped so that each of its four functions, when it returns, appends its
  own name and arguments to a log kept beside the runtime's state.
\<close>

datatype ('z, 'p) host_call =
    Call_aligned_malloc 'z 'z
  | Call_aligned_free 'p
  | Call_fdopen c_int string
  | Call_free 'p

type_synonym 'a calls = "('a size_t, 'a ptr) host_call list"

definition logged :: "'c \<Rightarrow> ('r, 'h) call \<Rightarrow> ('r, 'h \<times> 'c list) call" where
  "logged c m = (\<lambda>(s, log). case m s of None \<Rightarrow> None | Some (r, s') \<Rightarrow> Some (r, (s', log @ [c])))"

definition traced :: "('a::len, 'h) host \<Rightarrow> ('a, 'h \<times> 'a calls) host" where
  "traced H =
     \<lparr>host_aligned_malloc = (\<lambda>sz alignment. logged (Call_aligned_malloc sz alignment) (host_aligned_malloc H sz alignment)),
      host_aligned_free = (\<lambda>p. logged (Call_aligned_free p) (host_aligned_free H p)),
      host_fdopen = (\<lambda>fd mode. logged (Call_fdopen fd mode) (host_fdopen H fd mode)),
      host_free = (\<lambda>p. logged (Call_free p) (host_free H p))\<rparr>"

text \<open>The log a call leaves when it is started on an empty one (\<open>None\<close>: it did not return).\<close>

definition calls_made :: "('r, 'h \<times> 'c list) call \<Rightarrow> 'h \<Rightarrow> 'c list option" where
  "calls_made m s = map_option (\<lambda>(r, (s', log)). log) (m (s, []))"

section \<open>What the callers rely on in the runtime\<close>

text \<open>
  The file adds nothing to what the runtime does, so a property of the memory or of the
  streams it hands out is a property of the runtime, under the exchange of arguments.
  The runtime's side is stated here as it is documented for \<open>_aligned_malloc\<close>,
  \<open>_aligned_free\<close> and \<open>_fdopen\<close>; the predicates on the runtime's state
  (\<open>writable\<close>, \<open>owned\<close>, \<open>is_open\<close>, \<open>wraps\<close>) are parameters like the state itself.
\<close>

text \<open>A power of two that a \<open>size_t\<close> can hold: one of \<open>2 ^ k\<close> for \<open>k\<close> below the width.\<close>

definition is_pow2 :: "'a::len word \<Rightarrow> bool" where
  "is_pow2 w \<longleftrightarrow> list_ex (\<lambda>k. w = 2 ^ k) [0..<LENGTH('a)]"

text \<open>
  \<open>_aligned_malloc(size, alignment)\<close>, for an alignment that is a power of two and any
  size, returns; what it returns is the null pointer or a pointer that is a multiple
  of \<open>alignment\<close>, to \<open>size\<close> bytes. A runtime that does not return from such a call
  (that ends the process for a size of 0, say) does not keep this.
\<close>

definition aligned_malloc_contract :: "('a::len, 'h) host \<Rightarrow> ('h \<Rightarrow> 'a ptr \<Rightarrow> 'a size_t \<Rightarrow> bool) \<Rightarrow> bool" where
  "aligned_malloc_contract H writable \<longleftrightarrow>
     (\<forall>sz alignment s.
        is_pow2 alignment \<longrightarrow>
        (\<exists>p s'. host_aligned_malloc H sz alignment s = Some (p, s') \<and>
           (p = NULL \<or> (unat p mod unat alignment = 0 \<and> writable s' p sz))))"

text \<open>
  A non-null pointer that \<open>_aligned_malloc\<close> returned is a block of the aligned heap
  (\<open>owned\<close>), and \<open>_aligned_free\<close> releases every such block: it returns, and the block
  is the heap's no longer.
\<close>

definition aligned_heap_contract :: "('a::len, 'h) host \<Rightarrow> ('h \<Rightarrow> 'a ptr \<Rightarrow> bool) \<Rightarrow> bool" where
  "aligned_heap_contract H owned \<longleftrightarrow>
     (\<forall>sz alignment s p s'.
        host_aligned_malloc H sz alignment s = Some (p, s') \<longrightarrow> p \<noteq> NULL \<longrightarrow> owned s' p) \<and>
     (\<forall>s p. owned s p \<longrightarrow> (\<exists>s'. host_aligned_free H p s = Some ((), s') \<and> \<not> owned s' p))"

text \<open>\<open>_aligned_free\<close> of the null pointer returns and changes nothing.\<close>

definition aligned_free_null_contract :: "('a::len, 'h) host \<Rightarrow> bool" where
  "aligned_free_null_contract H \<longleftrightarrow> (\<forall>s. host_aligned_free H NULL s = Some ((), s))"

text \<open>
  \<open>_fdopen\<close> answers a descriptor that is not open, or a mode string that is not legal,
  by returning the null pointer, changing nothing. For an open descriptor and a legal
  mode it returns; what it returns is the null pointer (it can still refuse: every
  stream slot may be taken) or a stream on that descriptor.
\<close>

definition fdopen_contract ::
  "('a::len, 'h) host \<Rightarrow> ('h \<Rightarrow> c_int \<Rightarrow> bool) \<Rightarrow> (string \<Rightarrow> bool) \<Rightarrow> ('h \<Rightarrow> 'a ptr \<Rightarrow> c_int \<Rightarrow> bool) \<Rightarrow> bool" where
  "fdopen_contract H is_open legal wraps \<longleftrightarrow>
     (\<forall>fd mode s.
        (\<not> (is_open s fd \<and> legal mode) \<longrightarrow> host_fdopen H fd mode s = Some (NULL, s)) \<and>
        (is_open s fd \<and> legal mode \<longrightarrow>
           (\<exists>p s'. host_fdopen H fd mode s = Some (p, s') \<and> (p = NULL \<or> wraps s' p fd))))"

section \<open>A runtime to run the file against\<close>

text \<open>
  A small runtime with 32-bit pointers, on which the three functions can be run. It does
  what the documentation of the three primitives says, in the plainest way. Memory is
  handed out upwards from \<open>brk\<close> and never reused. The aligned heap and the generic heap
  keep separate books: releasing a pointer through the deallocator of the other heap,
  or a pointer that is no block at all, corrupts the heap, and the call does not return.
  An argument a primitive refuses shows as its documented return value, the null pointer.
\<close>

record crt_state =
  brk :: nat
  aligned_blocks :: "(nat \<times> nat) list"
  malloc_blocks :: "(nat \<times> nat) list"
  open_fds :: "c_int list"
  streams :: "(32 word \<times> c_int) list"
  stream_slots :: nat

definition round_up :: "nat \<Rightarrow> nat \<Rightarrow> nat" where
  "round_up n a = ((n + a - 1) div a) * a"

definition crt_aligned_malloc :: "32 word \<Rightarrow> 32 word \<Rightarrow> (32 word, crt_state) call" where
  "crt_aligned_malloc sz alignment s =
     (if \<not> is_pow2 alignment \<or> sz = 0 then Some (NULL, s)
      else let p = round_up (brk s) (unat alignment) in
        if p + unat sz < 2 ^ 32 then
          Some (of_nat p, s\<lparr>brk := p + unat sz, aligned_blocks := (p, unat sz) # aligned_blocks s\<rparr>)
        else Some (NULL, s))"

definition crt_aligned_free :: "32 word \<Rightarrow> (unit, crt_state) call" where
  "crt_aligned_free p s =
     (if p = NULL then Some ((), s)
      else if list_ex (\<lambda>b. fst b = unat p) (aligned_blocks s) then
        Some ((), s\<lparr>aligned_blocks := filter (\<lambda>b. fst b \<noteq> unat p) (aligned_blocks s)\<rparr>)
      else None)"

definition crt_free :: "32 word \<Rightarrow> (unit, crt_state) call" where
  "crt_free p s =
     (if p = NULL then Some ((), s)
      else if list_ex (\<lambda>b. fst b = unat p) (malloc_blocks s) then
        Some ((), s\<lparr>malloc_blocks := filter (\<lambda>b. fst b \<noteq> unat p) (malloc_blocks s)\<rparr>)
      else None)"

fun legal_mode :: "string \<Rightarrow> bool" where
  "legal_mode [] = False"
| "legal_mode (c # cs) = (c \<in> set ''rwa'' \<and> list_all (\<lambda>d. d \<in> set ''+bt'') cs)"

definition crt_is_open :: "crt_state \<Rightarrow> c_int \<Rightarrow> bool" where
  "crt_is_open s fd \<longleftrightarrow> fd \<in> set (open_fds s)"

definition crt_fdopen :: "c_int \<Rightarrow> string \<Rightarrow> (32 word, crt_state) call" where
  "crt_fdopen fd mode s =
     (if \<not> (crt_is_open s fd \<and> legal_mode mode) then Some (NULL, s)
      else if stream_slots s \<le> length (streams s) then Some (NULL, s)
      else let f = 1 + of_nat (length (streams s)) in
        Some (f, s\<lparr>streams := (f, fd) # streams s\<rparr>))"

definition crt :: "(32, crt_state) host" where
  "crt = \<lparr>host_aligned_malloc = crt_aligned_malloc, host_aligned_free = crt_aligned_free,
          host_fdopen = crt_fdopen, host_free = crt_free\<rparr>"

definition crt_writable :: "crt_state \<Rightarrow> 32 word \<Rightarrow> 32 word \<Rightarrow> bool" where
  "crt_writable s p sz \<longleftrightarrow> list_ex (\<lambda>b. fst b = unat p \<and> unat sz \<le> snd b) (aligned_blocks s)"

definition crt_owned :: "crt_state \<Rightarrow> 32 word \<Rightarrow> bool" where
  "crt_owned s p \<longleftrightarrow> p \<noteq> NULL \<and> list_ex (\<lambda>b. fst b = unat p) (aligned_blocks s)"

definition crt_wraps :: "crt_state \<Rightarrow> 32 word \<Rightarrow> c_int \<Rightarrow> bool" where
  "crt_wraps s f fd \<longleftrightarrow> (f, fd) \<in> set (streams s)"

text \<open>
  A process that has just started: nothing allocated, the three standard descriptors
  and descriptor 3 open, no stream made by \<open>_fdopen\<close> yet, room for 512 streams.
\<close>

definition crt_start :: crt_state where
  "crt_start = \<lparr>brk = 4096, aligned_blocks = [], malloc_blocks = [],
                open_fds = [0, 1, 2, 3], streams = [], stream_slots = 512\<rparr>"

text \<open>The same process after a \<open>malloc(16)\<close>: one live block of the generic heap, at 4096.\<close>

definition crt_malloc_live :: crt_state where
  "crt_malloc_live = crt_start\<lparr>brk := 4112, malloc_blocks := [(4096, 16)]\<rparr>"

text \<open>The same process with every stream slot taken.\<close>

definition crt_exhausted :: crt_state where
  "crt_exhausted = crt_start\<lparr>stream_slots := 0\<rparr>"

section \<open>Facts about the statement forms, the log and the sample runtime\<close>

lemma call_then_return [simp]: "call_then m (\<lambda>r. return_value r) = m"
  by (rule ext) (simp add: call_then_def return_value_def split: option.split)

lemma call_then_return_unit [simp]: "call_then m (\<lambda>_. return_value ()) = (m :: (unit, 'h) call)"
  by (rule ext) (simp add: call_then_def return_value_def split: option.split)

lemma calls_made_logged: "calls_made (logged c m) s = map_option (\<lambda>_. [c]) (m s)"
  by (simp add: calls_made_def logged_def split: option.split)

lemma traced_sel [simp]:
  "host_aligned_malloc (traced H) sz alignment =
     logged (Call_aligned_malloc sz alignment) (host_aligned_malloc H sz alignment)"
  "host_aligned_free (traced H) p = logged (Call_aligned_free p) (host_aligned_free H p)"
  "host_fdopen (traced H) fd mode = logged (Call_fdopen fd mode) (host_fdopen H fd mode)"
  "host_free (traced H) p = logged (Call_free p) (host_free H p)"
  by (simp_all add: traced_def)

lemma crt_sel [simp]:
  "host_aligned_malloc crt = crt_aligned_malloc"
  "host_aligned_free crt = crt_aligned_free"
  "host_fdopen crt = crt_fdopen"
  "host_free crt = crt_free"
  by (simp_all add: crt_def)

lemma is_pow2_iff: "is_pow2 (w :: 'a::len word) \<longleftrightarrow> (\<exists>k<LENGTH('a). w = 2 ^ k)"
  by (auto simp: is_pow2_def list_ex_iff)

lemma is_pow2_64: "is_pow2 (64 :: 32 word)"
proof -
  have "(64 :: 32 word) = 2 ^ 6" by simp
  then show ?thesis unfolding is_pow2_iff by (intro exI [of _ 6]) simp
qed

lemma round_up_mod: "round_up n a mod a = 0"
  by (simp add: round_up_def)

text \<open>The sample runtime keeps what is documented of the primitives.\<close>

lemma crt_malloc_contract: "aligned_malloc_contract crt crt_writable"
  unfolding aligned_malloc_contract_def
  by (auto simp: crt_aligned_malloc_def crt_writable_def Let_def round_up_mod unat_of_nat
      list_ex_iff split: if_splits)

lemma crt_heap_contract: "aligned_heap_contract crt crt_owned"
  unfolding aligned_heap_contract_def
  by (auto simp: crt_aligned_malloc_def crt_aligned_free_def crt_owned_def Let_def unat_of_nat
      list_ex_iff split: if_splits)

lemma crt_null_contract: "aligned_free_null_contract crt"
  by (simp add: aligned_free_null_contract_def crt_aligned_free_def)

lemma crt_fdopen_contract: "fdopen_contract crt crt_is_open legal_mode crt_wraps"
  unfolding fdopen_contract_def
  by (auto simp: crt_fdopen_def crt_wraps_def Let_def)

text \<open>
  The scenario of the specification on the sample runtime: 256 bytes aligned to 64 are
  found at address 4096, and releasing them empties the aligned heap again.
\<close>

lemma crt_alloc_64_256:
  "crt_aligned_malloc 256 64 crt_start =
     Some (4096, crt_start\<lparr>brk := 4352, aligned_blocks := [(4096, 256)]\<rparr>)"
  by (simp add: crt_aligned_malloc_def crt_start_def is_pow2_64 round_up_def Let_def)

lemma crt_free_4096:
  "crt_aligned_free 4096 (crt_start\<lparr>brk := 4352, aligned_blocks := [(4096, 256)]\<rparr>) =
     Some ((), crt_start\<lparr>brk := 4352, aligned_blocks := []\<rparr>)"
  by (simp add: crt_aligned_free_def crt_start_def)

text \<open>
  The generic deallocator of the sample runtime does not take a block of the aligned
  heap, and \<open>_aligned_free\<close> does not take a pointer that is no block of it: the two
  are not interchangeable.
\<close>

lemma crt_free_of_aligned_block:
  "crt_free 4096 (crt_start\<lparr>brk := 4352, aligned_blocks := [(4096, 256)]\<rparr>) = None"
  by (simp add: crt_free_def crt_start_def)

lemma crt_aligned_free_of_other_pointer:
  "crt_aligned_free 5 crt_start = None"
  by (simp add: crt_aligned_free_def crt_start_def)

section \<open>Allocation\<close>

text \<open>
  Claim C1. For every alignment and size, \<open>aligned_alloc alignment size\<close> returns
  exactly what the runtime's \<open>_aligned_malloc\<close> returns when it is given the size first
  and the alignment second, and leaves the runtime in the state that call left it in.
  \<open>aligned_alloc\<close> itself takes the alignment first and the size second, as C11 has it.
\<close>

theorem aligned_alloc_forwards_swapped:
  "aligned_alloc H alignment sz s = host_aligned_malloc H sz alignment s"
  by (simp add: aligned_alloc_def)

text \<open>
  Claim C4. Let the runtime's \<open>_aligned_malloc\<close> do what is documented of it. Then for
  every alignment that is a power of two and every size (a \<open>size_t\<close> is never
  negative), \<open>aligned_alloc alignment size\<close> returns, and what it returns is the null
  pointer, or a pointer whose address is a multiple of \<open>alignment\<close> and at which \<open>size\<close>
  bytes can be written. That the first argument of \<open>aligned_alloc\<close> is the one the
  address is a multiple of rests on the exchange of the arguments in the body.
\<close>

theorem aligned_alloc_null_or_aligned:
  assumes "aligned_malloc_contract H writable" and "is_pow2 alignment"
  shows "\<exists>p s'. aligned_alloc H alignment sz s = Some (p, s') \<and>
           (p = NULL \<or> (unat p mod unat alignment = 0 \<and> writable s' p sz))"
  using assms by (simp add: aligned_malloc_contract_def aligned_alloc_def)

theorem aligned_alloc_null_or_aligned_witness:
  "aligned_malloc_contract crt crt_writable \<and> is_pow2 (64 :: 32 word)
   \<and> aligned_alloc crt 64 256 crt_start =
       Some (4096, crt_start\<lparr>brk := 4352, aligned_blocks := [(4096, 256)]\<rparr>)
   \<and> (4096 :: 32 word) \<noteq> NULL
   \<and> unat (4096 :: 32 word) mod unat (64 :: 32 word) = 0
   \<and> crt_writable (crt_start\<lparr>brk := 4352, aligned_blocks := [(4096, 256)]\<rparr>) 4096 256"
proof -
  let ?s1 = "crt_start\<lparr>brk := 4352, aligned_blocks := [(4096, 256)]\<rparr>"
  have pow: "is_pow2 (64 :: 32 word)" by (rule is_pow2_64)
  have alloc: "aligned_alloc crt 64 256 crt_start = Some (4096, ?s1)"
    by (simp add: aligned_alloc_def crt_alloc_64_256)
  have nz: "(4096 :: 32 word) \<noteq> NULL" by simp
  from aligned_alloc_null_or_aligned [OF crt_malloc_contract pow, of 256 crt_start]
  have "\<exists>p s'. Some (4096, ?s1) = Some (p, s') \<and>
          (p = NULL \<or> (unat p mod unat (64 :: 32 word) = 0 \<and> crt_writable s' p 256))"
    unfolding alloc .
  then have "(4096 :: 32 word) = NULL
      \<or> (unat (4096 :: 32 word) mod unat (64 :: 32 word) = 0 \<and> crt_writable ?s1 4096 256)"
    by (elim exE conjE) (simp only: option.inject prod.inject)
  with nz
  have "unat (4096 :: 32 word) mod unat (64 :: 32 word) = 0 \<and> crt_writable ?s1 4096 256"
    by (elim disjE) (erule notE, assumption)
  with crt_malloc_contract pow alloc nz show ?thesis by (intro conjI) (elim conjE, assumption)+
qed

section \<open>Deallocation\<close>

text \<open>
  Claim C2. Let the runtime's \<open>_aligned_free\<close> release the blocks of its
  \<open>_aligned_malloc\<close>. Then every block obtained from \<open>aligned_alloc\<close> (a non-null
  result) is a block of the aligned heap, and \<open>free\<close> releases every block of the
  aligned heap: it returns, and the block is the heap's no longer. For \<open>free\<close> makes one
  call, to \<open>_aligned_free\<close>, the primitive that pairs with the \<open>_aligned_malloc\<close> that
  \<open>aligned_alloc\<close> calls; the runtime's generic deallocator has no part in it, whatever
  that deallocator is.
\<close>

theorem aligned_block_released_by_free:
  assumes "aligned_heap_contract H owned"
  shows "(aligned_alloc H alignment sz s = Some (p, s') \<and> p \<noteq> NULL \<longrightarrow> owned s' p)
       \<and> (owned t q \<longrightarrow> (\<exists>t'. free H q t = Some ((), t') \<and> \<not> owned t' q))
       \<and> calls_made (free (traced H) q) t =
           map_option (\<lambda>_. [Call_aligned_free q]) (host_aligned_free H q t)
       \<and> free (H\<lparr>host_free := g\<rparr>) q t = free H q t"
  using assms
  by (auto simp: aligned_heap_contract_def aligned_alloc_def free_def calls_made_logged)

theorem aligned_block_released_by_free_witness:
  "aligned_heap_contract crt crt_owned
   \<and> aligned_alloc crt 64 256 crt_start =
       Some (4096, crt_start\<lparr>brk := 4352, aligned_blocks := [(4096, 256)]\<rparr>)
   \<and> crt_owned (crt_start\<lparr>brk := 4352, aligned_blocks := [(4096, 256)]\<rparr>) 4096
   \<and> (\<exists>t'. free crt 4096 (crt_start\<lparr>brk := 4352, aligned_blocks := [(4096, 256)]\<rparr>) = Some ((), t')
          \<and> \<not> crt_owned t' 4096)
   \<and> calls_made (free (traced crt) 4096) (crt_start\<lparr>brk := 4352, aligned_blocks := [(4096, 256)]\<rparr>) =
       Some [Call_aligned_free 4096]"
proof -
  let ?s1 = "crt_start\<lparr>brk := 4352, aligned_blocks := [(4096, 256)]\<rparr>"
  have alloc: "aligned_alloc crt 64 256 crt_start = Some (4096, ?s1)"
    by (simp add: aligned_alloc_def crt_alloc_64_256)
  note t = aligned_block_released_by_free
    [OF crt_heap_contract, of 64 256 crt_start 4096 ?s1 ?s1 4096]
  from t alloc have own: "crt_owned ?s1 4096" by simp
  with t have rel: "\<exists>t'. free crt 4096 ?s1 = Some ((), t') \<and> \<not> crt_owned t' 4096"
    by blast
  from t have "calls_made (free (traced crt) 4096) ?s1 =
      map_option (\<lambda>_. [Call_aligned_free 4096]) (host_aligned_free crt 4096 ?s1)"
    by blast
  then have log: "calls_made (free (traced crt) 4096) ?s1 = Some [Call_aligned_free 4096]"
    by (simp add: crt_free_4096)
  from crt_heap_contract alloc own rel log show ?thesis by blast
qed

text \<open>
  Claim C3. For every pointer \<open>p\<close>, whether \<open>aligned_alloc\<close> returned it or not,
  \<open>free p\<close> is the runtime's \<open>_aligned_free p\<close>: the one call it makes is that call, its
  outcome is that call's outcome, and the runtime's generic deallocator is never
  reached, whatever it is. Where the file is compiled, the name \<open>free\<close> is defined by
  it and means this function.
\<close>

theorem free_always_aligned_free:
  "free H p s = host_aligned_free H p s
   \<and> calls_made (free (traced H) p) s =
       map_option (\<lambda>_. [Call_aligned_free p]) (host_aligned_free H p s)
   \<and> free (H\<lparr>host_free := g\<rparr>) p s = free H p s
   \<and> map_of (LibC_h True H) ''free'' = Some (Fn_ptr_to_void (free H))"
  by (simp add: free_def calls_made_logged LibC_h_def)

text \<open>
  Claim C5, amended. Let the runtime's \<open>_aligned_free\<close> return at once for the null
  pointer and release the blocks of the aligned heap, as documented. Then \<open>free NULL\<close>
  returns and changes nothing, and \<open>free\<close> of a block of the aligned heap returns; what
  \<open>free\<close> returns is the value of \<open>void\<close> and nothing else, so it has no way to report a
  failure. For any other pointer \<open>free\<close> returns exactly when \<open>_aligned_free\<close> does.
\<close>

theorem free_null_is_noop:
  assumes "aligned_free_null_contract H" and "aligned_heap_contract H owned"
  shows "free H NULL s = Some ((), s)
       \<and> (owned t q \<longrightarrow> (\<exists>t'. free H q t = Some ((), t')))
       \<and> (\<exists>r. free H p u = Some r) = (\<exists>r. host_aligned_free H p u = Some r)"
proof -
  from assms(1) have null: "free H NULL s = Some ((), s)"
    by (simp add: aligned_free_null_contract_def free_def)
  from assms(2) have "owned t q \<longrightarrow> (\<exists>t'. host_aligned_free H q t = Some ((), t'))"
    unfolding aligned_heap_contract_def by blast
  then have rel: "owned t q \<longrightarrow> (\<exists>t'. free H q t = Some ((), t'))"
    by (simp add: free_def)
  have same: "(\<exists>r. free H p u = Some r) = (\<exists>r. host_aligned_free H p u = Some r)"
    by (simp add: free_def)
  from null rel same show ?thesis by (intro conjI)
qed

theorem free_null_is_noop_witness:
  "aligned_free_null_contract crt \<and> aligned_heap_contract crt crt_owned
   \<and> free crt NULL crt_start = Some ((), crt_start)
   \<and> crt_owned (crt_start\<lparr>brk := 4352, aligned_blocks := [(4096, 256)]\<rparr>) 4096
   \<and> (\<exists>t'. free crt 4096 (crt_start\<lparr>brk := 4352, aligned_blocks := [(4096, 256)]\<rparr>) = Some ((), t'))"
proof -
  let ?s1 = "crt_start\<lparr>brk := 4352, aligned_blocks := [(4096, 256)]\<rparr>"
  note t = free_null_is_noop [OF crt_null_contract crt_heap_contract, of crt_start ?s1 4096]
  have own: "crt_owned ?s1 4096" by (simp add: crt_owned_def)
  from t have null: "free crt NULL crt_start = Some ((), crt_start)" by blast
  from t own have rel: "\<exists>t'. free crt 4096 ?s1 = Some ((), t')" by blast
  from crt_null_contract crt_heap_contract null own rel show ?thesis by blast
qed

text \<open>
  As first stated, the claim has \<open>free\<close> without a failure for any input. The file
  sends every pointer to \<open>_aligned_free\<close>, and a pointer that is no block of the aligned
  heap is a failure there. On the sample runtime, which returns at once for the null
  pointer: the block at 4096 is a live block of the generic heap, the runtime's generic
  deallocator releases it, and \<open>free\<close> of it ends the process.
\<close>

theorem free_malloc_block_counterexample:
  "aligned_free_null_contract crt
   \<and> host_free crt 4096 crt_malloc_live = Some ((), crt_malloc_live\<lparr>malloc_blocks := []\<rparr>)
   \<and> free crt 4096 crt_malloc_live = None"
  using crt_null_contract
  by (simp add: free_def crt_free_def crt_aligned_free_def crt_malloc_live_def crt_start_def)

section \<open>Streams\<close>

text \<open>
  Claim C6, amended. Let the runtime's \<open>_fdopen\<close> do what is documented of it. Then for
  every mode string that is not legal and every descriptor that is not open, \<open>fdopen\<close>
  returns the null pointer and does not end the process (it returns, and the runtime
  is as it was). For every open descriptor and legal mode string \<open>fdopen\<close> returns as
  well, and what it returns is a non-null stream on that descriptor or, where the
  runtime still refuses, the null pointer.
\<close>

theorem fdopen_null_or_stream:
  assumes "fdopen_contract H is_open legal wraps"
  shows "fdopen H fd mode s = host_fdopen H fd mode s
       \<and> (\<not> (is_open s fd \<and> legal mode) \<longrightarrow> fdopen H fd mode s = Some (NULL, s))
       \<and> (is_open s fd \<and> legal mode \<longrightarrow>
            (\<exists>p s'. fdopen H fd mode s = Some (p, s') \<and> (p = NULL \<or> wraps s' p fd)))"
  using assms by (simp add: fdopen_contract_def fdopen_def)

theorem fdopen_null_or_stream_witness:
  "fdopen_contract crt crt_is_open legal_mode crt_wraps
   \<and> crt_is_open crt_start 3 \<and> legal_mode ''r'' \<and> \<not> legal_mode ''x'' \<and> \<not> crt_is_open crt_start 7
   \<and> fdopen crt 3 ''x'' crt_start = Some (NULL, crt_start)
   \<and> fdopen crt 7 ''r'' crt_start = Some (NULL, crt_start)
   \<and> fdopen crt 3 ''r'' crt_start = Some (1, crt_start\<lparr>streams := [(1, 3)]\<rparr>)
   \<and> crt_wraps (crt_start\<lparr>streams := [(1, 3)]\<rparr>) 1 3"
proof -
  have o3: "crt_is_open crt_start 3" and o7: "\<not> crt_is_open crt_start 7"
    by (simp_all add: crt_is_open_def crt_start_def)
  have lr: "legal_mode ''r''" and lx: "\<not> legal_mode ''x''" by simp_all
  from fdopen_null_or_stream [OF crt_fdopen_contract, of 3 "''x''" crt_start] lx
  have bad_mode: "fdopen crt 3 ''x'' crt_start = Some (NULL, crt_start)" by blast
  from fdopen_null_or_stream [OF crt_fdopen_contract, of 7 "''r''" crt_start] o7
  have bad_fd: "fdopen crt 7 ''r'' crt_start = Some (NULL, crt_start)" by blast
  from fdopen_null_or_stream [OF crt_fdopen_contract, of 3 "''r''" crt_start]
  have "fdopen crt 3 ''r'' crt_start = host_fdopen crt 3 ''r'' crt_start" by blast
  then have good: "fdopen crt 3 ''r'' crt_start = Some (1, crt_start\<lparr>streams := [(1, 3)]\<rparr>)"
    by (simp add: crt_fdopen_def crt_is_open_def crt_start_def)
  have w: "crt_wraps (crt_start\<lparr>streams := [(1, 3)]\<rparr>) 1 3"
    by (simp add: crt_wraps_def)
  from crt_fdopen_contract o3 o7 lr lx bad_mode bad_fd good w show ?thesis by blast
qed

text \<open>
  As first stated, the claim has \<open>fdopen\<close> return a stream, not the null pointer, for
  every open descriptor and legal mode string. The file has nothing that could make
  it so: with every stream slot of the runtime taken, descriptor 3 is open, \<open>"r"\<close> is a
  legal mode, \<open>_fdopen\<close> returns the null pointer and \<open>fdopen\<close> hands it on. What the
  claim says of a mode that is not legal and of a descriptor that is not open stands.
\<close>

theorem fdopen_exhausted_counterexample:
  "crt_is_open crt_exhausted 3 \<and> legal_mode ''r''
   \<and> fdopen crt 3 ''r'' crt_exhausted = Some (NULL, crt_exhausted)"
  by (simp add: fdopen_def crt_fdopen_def crt_is_open_def crt_exhausted_def crt_start_def)

section \<open>The three functions together\<close>

text \<open>
  Claim C7. Each of the three functions hands the outcome of its primitive to its
  caller as it is: the same value (the null pointer where the primitive returned the
  null pointer) and the same state of the runtime, so nothing is kept for diagnosis.
  The log of each holds the one call and no other: nothing is tried again, nothing
  else is tried in its place.
\<close>

theorem results_passed_through:
  "aligned_alloc H alignment sz s = host_aligned_malloc H sz alignment s
   \<and> free H p s = host_aligned_free H p s
   \<and> fdopen H fd mode s = host_fdopen H fd mode s
   \<and> (aligned_alloc H alignment sz s = Some (NULL, s')) = (host_aligned_malloc H sz alignment s = Some (NULL, s'))
   \<and> (fdopen H fd mode s = Some (NULL, s')) = (host_fdopen H fd mode s = Some (NULL, s'))
   \<and> calls_made (aligned_alloc (traced H) alignment sz) s =
       map_option (\<lambda>_. [Call_aligned_malloc sz alignment]) (host_aligned_malloc H sz alignment s)
   \<and> calls_made (free (traced H) p) s =
       map_option (\<lambda>_. [Call_aligned_free p]) (host_aligned_free H p s)
   \<and> calls_made (fdopen (traced H) fd mode) s =
       map_option (\<lambda>_. [Call_fdopen fd mode]) (host_fdopen H fd mode s)"
  by (simp add: aligned_alloc_def free_def fdopen_def calls_made_logged)

text \<open>
  Claim C8. The file has no state. It defines no object, so there is no variable of
  its own that a call could read or write. What a call does is fixed by its arguments
  and by what the primitive it forwards to does at the state the runtime is in: two
  runtimes that agree on the three primitives give the same three functions, whatever
  else differs. Nothing is carried from one call to the next: a call after another is
  the primitive at the state the first left the runtime in.
\<close>

theorem shim_is_stateless:
  assumes "host_aligned_malloc H = host_aligned_malloc H'"
    and "host_aligned_free H = host_aligned_free H'"
    and "host_fdopen H = host_fdopen H'"
  shows "aligned_alloc H alignment sz s = aligned_alloc H' alignment sz s
       \<and> free H p s = free H' p s
       \<and> fdopen H fd mode s = fdopen H' fd mode s
       \<and> call_then (free H p) (\<lambda>_. aligned_alloc H alignment sz) s =
           call_then (host_aligned_free H p) (\<lambda>_. host_aligned_malloc H sz alignment) s
       \<and> objects_of (LibC_h w H) = []"
  using assms by (simp add: aligned_alloc_def free_def fdopen_def objects_of_def LibC_h_def)

theorem shim_is_stateless_witness:
  "host_aligned_malloc crt = host_aligned_malloc (crt\<lparr>host_free := crt_aligned_free\<rparr>)
   \<and> host_aligned_free crt = host_aligned_free (crt\<lparr>host_free := crt_aligned_free\<rparr>)
   \<and> host_fdopen crt = host_fdopen (crt\<lparr>host_free := crt_aligned_free\<rparr>)
   \<and> aligned_alloc crt 64 256 crt_start =
       aligned_alloc (crt\<lparr>host_free := crt_aligned_free\<rparr>) 64 256 crt_start
   \<and> free crt NULL crt_start = free (crt\<lparr>host_free := crt_aligned_free\<rparr>) NULL crt_start
   \<and> fdopen crt 3 ''r'' crt_start = fdopen (crt\<lparr>host_free := crt_aligned_free\<rparr>) 3 ''r'' crt_start
   \<and> objects_of (LibC_h True crt) = []"
  using shim_is_stateless
    [of crt "crt\<lparr>host_free := crt_aligned_free\<rparr>" 64 256 crt_start NULL 3 "''r''" True]
  by simp

text \<open>
  Claim C9. Where \<open>_WIN32\<close> is not defined the file contributes nothing: the list of
  its external definitions is empty, so none of the three names is defined by it.
  (Where it is defined, the three names are what the file defines.)
\<close>

theorem no_symbols_off_windows:
  "LibC_h False H = []
   \<and> map_of (LibC_h False H) ''aligned_alloc'' = None
   \<and> map_of (LibC_h False H) ''free'' = None
   \<and> map_of (LibC_h False H) ''fdopen'' = None
   \<and> map fst (LibC_h True H) = [''aligned_alloc'', ''free'', ''fdopen'']"
  by (simp add: LibC_h_def)

text \<open>
  Claim C10. Every call of the three functions is bounded by its one call of the
  runtime: it returns exactly when that call returns, and where it returns the log
  holds one call. None of the three definitions is recursive and none has a loop.
\<close>

theorem every_call_is_one_host_call:
  "(\<exists>r. aligned_alloc H alignment sz s = Some r) = (\<exists>r. host_aligned_malloc H sz alignment s = Some r)
   \<and> (\<exists>r. free H p s = Some r) = (\<exists>r. host_aligned_free H p s = Some r)
   \<and> (\<exists>r. fdopen H fd mode s = Some r) = (\<exists>r. host_fdopen H fd mode s = Some r)
   \<and> map_option length (calls_made (aligned_alloc (traced H) alignment sz) s) =
       map_option (\<lambda>_. 1) (host_aligned_malloc H sz alignment s)
   \<and> map_option length (calls_made (free (traced H) p) s) =
       map_option (\<lambda>_. 1) (host_aligned_free H p s)
   \<and> map_option length (calls_made (fdopen (traced H) fd mode) s) =
       map_option (\<lambda>_. 1) (host_fdopen H fd mode s)"
  by (simp add: aligned_alloc_def free_def fdopen_def calls_made_logged option.map_comp comp_def)

end
